theory Spec2Isabelle
  imports Complex_Main
begin

section \<open>Numbers of the widget\<close>

text \<open>
  The widget computes with the numbers of its host language: finite values, the two
  infinities and the value that is not a number. The finite values are modelled by
  rationals with exact arithmetic, so the rounding of binary floating point, its overflow
  and the sign of zero are outside the model. Reading a cell that a table row does not
  have yields \<open>undefined\<close> in the source; every use the widget makes of such a value
  is arithmetic or a comparison, where it behaves as \<open>NaN\<close>, and it is modelled by
  \<open>NaN\<close>.
\<close>

datatype number = Num rat | PInf | NInf | NaN

instantiation number :: "{uminus, plus, minus, times, inverse, abs, ord}"
begin

fun uminus_number :: "number \<Rightarrow> number" where
  "uminus_number (Num a) = Num (- a)"
| "uminus_number PInf = NInf"
| "uminus_number NInf = PInf"
| "uminus_number NaN = NaN"

fun plus_number :: "number \<Rightarrow> number \<Rightarrow> number" where
  "plus_number NaN y = NaN"
| "plus_number x NaN = NaN"
| "plus_number (Num a) (Num b) = Num (a + b)"
| "plus_number PInf NInf = NaN"
| "plus_number NInf PInf = NaN"
| "plus_number PInf y = PInf"
| "plus_number NInf y = NInf"
| "plus_number (Num a) y = y"

definition minus_number :: "number \<Rightarrow> number \<Rightarrow> number" where
  "minus_number x y = x + (- y)"

fun times_number :: "number \<Rightarrow> number \<Rightarrow> number" where
  "times_number NaN y = NaN"
| "times_number x NaN = NaN"
| "times_number (Num a) (Num b) = Num (a * b)"
| "times_number (Num a) PInf = (if a = 0 then NaN else if 0 < a then PInf else NInf)"
| "times_number (Num a) NInf = (if a = 0 then NaN else if 0 < a then NInf else PInf)"
| "times_number PInf (Num b) = (if b = 0 then NaN else if 0 < b then PInf else NInf)"
| "times_number NInf (Num b) = (if b = 0 then NaN else if 0 < b then NInf else PInf)"
| "times_number PInf PInf = PInf"
| "times_number PInf NInf = NInf"
| "times_number NInf PInf = NInf"
| "times_number NInf NInf = PInf"

fun divide_number :: "number \<Rightarrow> number \<Rightarrow> number" where
  "divide_number NaN y = NaN"
| "divide_number x NaN = NaN"
| "divide_number (Num a) (Num b) =
     (if b \<noteq> 0 then Num (a / b)
      else if a = 0 then NaN else if 0 < a then PInf else NInf)"
| "divide_number (Num a) y = Num 0"
| "divide_number PInf (Num b) = (if 0 \<le> b then PInf else NInf)"
| "divide_number NInf (Num b) = (if 0 \<le> b then NInf else PInf)"
| "divide_number x y = NaN"

definition inverse_number :: "number \<Rightarrow> number" where
  "inverse_number x = divide (Num 1) x"

fun abs_number :: "number \<Rightarrow> number" where
  "abs_number (Num a) = Num \<bar>a\<bar>"
| "abs_number NaN = NaN"
| "abs_number x = PInf"

fun less_number :: "number \<Rightarrow> number \<Rightarrow> bool" where
  "less_number NaN y = False"
| "less_number x NaN = False"
| "less_number (Num a) (Num b) = (a < b)"
| "less_number x NInf = False"
| "less_number PInf y = False"
| "less_number x y = True"

definition less_eq_number :: "number \<Rightarrow> number \<Rightarrow> bool" where
  "less_eq_number x y = (x < y \<or> (x = y \<and> x \<noteq> NaN))"

instance ..

end

text \<open>The operator \<open>===\<close> on two numbers: \<open>NaN\<close> equals nothing, itself included.\<close>

definition strict_equals :: "number \<Rightarrow> number \<Rightarrow> bool" where
  "strict_equals x y = (x = y \<and> x \<noteq> NaN)"

subsection \<open>Decimal texts\<close>

text \<open>The decimal digits of a natural number, most significant first.\<close>

function decimal :: "nat \<Rightarrow> string" where
  "decimal n =
     (if n < 10 then [''0123456789'' ! n]
      else decimal (n div 10) @ [''0123456789'' ! (n mod 10)])"
  by pat_completeness auto
termination
  by (relation "measure (\<lambda>n. n)") auto

declare decimal.simps [simp del]

text \<open>
  \<open>Number.prototype.toFixed\<close> of the host language, after its standard: the sign, then the
  integer \<open>n\<close> for which \<open>n / 10 ^ f\<close> is nearest to the magnitude (the larger one of two
  that are equally near), written with \<open>f\<close> digits after the point. From \<open>10 ^ 21\<close> on the
  standard answers with the exponent notation of the number instead; that text is not
  modelled, and nothing is proved about it.
\<close>

definition Number_toString_exponent :: "rat \<Rightarrow> string" where
  "Number_toString_exponent a = undefined"

definition toFixed :: "nat \<Rightarrow> number \<Rightarrow> string" where
  "toFixed f x =
     (case x of
        NaN \<Rightarrow> ''NaN''
      | PInf \<Rightarrow> ''Infinity''
      | NInf \<Rightarrow> ''-Infinity''
      | Num r \<Rightarrow>
          (let s = (if r < 0 then ''-'' else '''');
               a = \<bar>r\<bar>
           in if 10 ^ 21 \<le> a then s @ Number_toString_exponent a
              else
                (let n = nat \<lfloor>a * 10 ^ f + 1 / 2\<rfloor>;
                     m = decimal n
                 in if f = 0 then s @ m
                    else
                      (let m' = replicate (f + 1 - length m) (CHR ''0'') @ m;
                           k = length m'
                       in s @ take (k - f) m' @ ''.'' @ drop (k - f) m'))))"

section \<open>Percent formatting and percent change\<close>

text \<open>
  \<open>percentFormatter\<close> and \<open>getPercentChange\<close> are the same text in both copies of the
  widget (\<open>src/visual.ts\<close> and the unnamed copy). An omitted \<open>showPlusMinus\<close> is
  \<open>undefined\<close> in the source and acts as \<open>False\<close>.
\<close>

definition percentFormatter :: "number \<Rightarrow> bool \<Rightarrow> string" where
  "percentFormatter v showPlusMinus =
     (let prefix = (if Num 0 \<le> v then ''+'' else '''');
          valueString = toFixed 1 (v * Num 100) @ ''%''
      in if showPlusMinus then prefix @ valueString else valueString)"

definition getPercentChange :: "number \<Rightarrow> number \<Rightarrow> string" where
  "getPercentChange startValue endValue =
     (if strict_equals startValue (Num 0) then ''n/a''
      else
        (let diff = endValue - startValue;
             percentChange = \<bar>diff / startValue\<bar>;
             percentChange =
               (if endValue < startValue then percentChange * Num (- 1) else percentChange)
         in percentFormatter percentChange True))"

section \<open>Data points and the reference point of the percent change\<close>

text \<open>
  A \<open>Date\<close> of the host language is its time value in milliseconds, \<open>NaN\<close> for an invalid
  date. A data point is \<open>IDualKpiDataPoint\<close>; its field \<open>value\<close> is written \<open>val\<close> here.
  Reading an array at an index it does not have yields \<open>undefined\<close>, modelled by \<open>None\<close>.
\<close>

datatype Date = Date (getTime: number)

record IDualKpiDataPoint =
  date :: Date
  val :: number

definition array_get :: "'a list \<Rightarrow> nat \<Rightarrow> 'a option" where
  "array_get xs i = (if i < length xs then Some (xs ! i) else None)"

text \<open>
  The loop of \<open>getPercentChangeStartPoint\<close>, from index \<open>i\<close> with the current
  \<open>closestIndex\<close>: it stops at a date equal to the configured one, moves on over an
  older date and stops at the first more recent one.
\<close>

function closestIndexFrom :: "IDualKpiDataPoint list \<Rightarrow> number \<Rightarrow> nat \<Rightarrow> nat \<Rightarrow> nat" where
  "closestIndexFrom chartData percentCalcDateTime i closestIndex =
     (if i < length chartData then
        (let currTime = getTime (date (chartData ! i))
         in if strict_equals currTime percentCalcDateTime then i
            else if currTime < percentCalcDateTime
              then closestIndexFrom chartData percentCalcDateTime (Suc i) i
            else closestIndex)
      else closestIndex)"
  by pat_completeness auto
termination
  by (relation "measure (\<lambda>(chartData, t, i, c). length chartData - i)") auto

declare closestIndexFrom.simps [simp del]

text \<open>The configured date \<open>null\<close> is \<open>None\<close>. The same text in both copies of the widget.\<close>

definition getPercentChangeStartPoint ::
    "IDualKpiDataPoint list \<Rightarrow> Date option \<Rightarrow> IDualKpiDataPoint option" where
  "getPercentChangeStartPoint chartData percentCalcDate =
     (case percentCalcDate of
        Some d \<Rightarrow> array_get chartData (closestIndexFrom chartData (getTime d) 0 0)
      | None \<Rightarrow> array_get chartData 0)"

section \<open>The data view of the host\<close>

text \<open>
  The widget exists in two copies that differ in a few places: \<open>src/visual.ts\<close> and a
  later copy whose file name is not known. Where they differ the model takes the copy as
  a parameter; everything else is the same text in both.
\<close>

datatype source_file = visual_ts | part_000

text \<open>An exception of the host language: reading a property of \<open>undefined\<close>.\<close>

datatype error = TypeError

text \<open>
  A column of the data view carries a display name, a format string and its roles. The
  format string may hold currency signs beyond the Latin alphabet, so it is a list of
  UTF-16 code units; \<open>None\<close> is \<open>undefined\<close>. The roles are an object from role names to
  booleans, an association list here.
\<close>

record DataViewMetadataColumn =
  displayName :: string
  format :: "nat list option"
  roles :: "(string \<times> bool) list option"

text \<open>
  The persisted formatting properties, in their four objects. \<open>None\<close> is \<open>undefined\<close>: an
  object or a property that was never stored. Where \<open>null\<close> is a value of a property (the
  axis bounds and the reference dates), the stored value is an option again. The colours
  are fills in the source, kept here by the colour text of the fill. The property of the
  warning text is called \<open>errorTooltipText\<close> in \<open>src/visual.ts\<close> and
  \<open>warningTooltipText\<close> in the other copy.
\<close>

record DualKpiPropertiesObject =
  p_titleText :: "string option"
  p_abbreviateValues :: "bool option"
  p_topChartToolTipText :: "string option"
  p_bottomChartToolTipText :: "string option"
  p_warningTooltipText :: "string option"
  p_showStaleDataWarning :: "bool option"
  p_staleDataTooltipText :: "string option"
  p_staleDataThreshold :: "number option"
  p_topPercentCalcDate :: "string option option"
  p_bottomPercentCalcDate :: "string option option"

record DualKpiColorsObject =
  p_dataColor :: "string option"
  p_textColor :: "string option"
  p_opacity :: "number option"

record DualKpiAxisObject =
  p_topChartAxisMin :: "number option option"
  p_topChartAxisMax :: "number option option"
  p_bottomChartAxisMin :: "number option option"
  p_bottomChartAxisMax :: "number option option"
  p_topChartZeroLine :: "bool option"
  p_bottomChartZeroLine :: "bool option"

record DualKpiChartObject =
  p_topChartType :: "string option"
  p_bottomChartType :: "string option"

record DataViewObjects =
  dualKpiProperties :: "DualKpiPropertiesObject option"
  dualKpiColors :: "DualKpiColorsObject option"
  dualKpiAxis :: "DualKpiAxisObject option"
  dualKpiChart :: "DualKpiChartObject option"

text \<open>
  A cell of the table is a number; a cell that holds a date is kept by its time value.
  Other kinds of cells (texts, \<open>null\<close>) are outside the model.
\<close>

record DataViewTable =
  rows :: "number list list"

record DataViewMetadata =
  columns :: "DataViewMetadataColumn list option"
  objects :: "DataViewObjects option"

record DataView =
  metadata :: "DataViewMetadata option"
  table :: "DataViewTable option"

text \<open>
  What the widget takes from its surroundings besides the data view: the parser of date
  texts behind \<open>new Date(text)\<close>, the clock behind \<open>new Date()\<close> (read once for each row
  by the converter, and once for the footer), and the formatters of the d3 library by
  their specifier.
\<close>

record host =
  Date_parse :: "string \<Rightarrow> number"
  clock :: "nat \<Rightarrow> Date"
  today :: Date
  d3_format :: "string \<Rightarrow> number \<Rightarrow> string"
  d3_time_format :: "string \<Rightarrow> Date \<Rightarrow> string"

section \<open>The converter\<close>

record IDualKpiData =
  topChartName :: string
  bottomChartName :: string
  topValues :: "IDualKpiDataPoint list"
  bottomValues :: "IDualKpiDataPoint list"
  topValueAsPercent :: bool
  bottomValueAsPercent :: bool
  warningState :: number
  title :: string
  abbreviateValues :: bool
  topChartToolTipText :: string
  bottomChartToolTipText :: string
  warningTooltipText :: string
  showStaleDataWarning :: bool
  staleDataTooltipText :: string
  staleDataThreshold :: number
  topPercentCalcDate :: Date
  bottomPercentCalcDate :: Date
  dataColor :: string
  textColor :: string
  opacity :: number
  topChartAxisMin :: "number option"
  topChartAxisMax :: "number option"
  bottomChartAxisMin :: "number option"
  bottomChartAxisMax :: "number option"
  topChartZeroLine :: bool
  bottomChartZeroLine :: bool
  topChartType :: string
  bottomChartType :: string

text \<open>
  \<open>getValue\<close>: the default when the objects, the named object or the property is missing.
  The getters of the source (\<open>getTitleText\<close> and the others) each call it with one
  property and its default; the converter below writes these calls out.
\<close>

definition getValue ::
    "'os option \<Rightarrow> ('os \<Rightarrow> 'ob option) \<Rightarrow> ('ob \<Rightarrow> 'a option) \<Rightarrow> 'a \<Rightarrow> 'a" where
  "getValue objs objectName propertyName defaultValue =
     (case objs of
        None \<Rightarrow> defaultValue
      | Some os \<Rightarrow>
          (case objectName os of
             None \<Rightarrow> defaultValue
           | Some ob \<Rightarrow>
               (case propertyName ob of
                  None \<Rightarrow> defaultValue
                | Some propertyValue \<Rightarrow> propertyValue)))"

text \<open>
  \<open>getFormatSymbol\<close>: the first code unit of the format that is one of the dollar, euro,
  pound, yen, won and percent signs. An undefined format is matched as the text
  \<open>undefined\<close>, which holds none of them.
\<close>

definition symbolPatterns :: "nat list" where
  "symbolPatterns = [0x24, 0x20AC, 0xA3, 0xA5, 0x20A9, 0x25]"

definition getFormatSymbol :: "nat list option \<Rightarrow> nat list option" where
  "getFormatSymbol fmt =
     (case fmt of
        None \<Rightarrow> None
      | Some units \<Rightarrow>
          (case find (\<lambda>u. u \<in> set symbolPatterns) units of
             None \<Rightarrow> None
           | Some u \<Rightarrow> Some [u]))"

text \<open>The local variables of the converter that the loop over the columns assigns.\<close>

record ColumnScan =
  axisCol :: int
  topValuesCol :: int
  bottomValuesCol :: int
  warningStateCol :: int
  topPercentDateCol :: int
  bottomPercentDateCol :: int
  scanTopChartName :: string
  scanBottomChartName :: string
  topValueFormatSymbol :: "nat list option"
  bottomValueFormatSymbol :: "nat list option"

definition initialScan :: ColumnScan where
  "initialScan =
     \<lparr>axisCol = - 1, topValuesCol = - 1, bottomValuesCol = - 1, warningStateCol = - 1,
      topPercentDateCol = - 1, bottomPercentDateCol = - 1,
      scanTopChartName = [], scanBottomChartName = [],
      topValueFormatSymbol = Some [], bottomValueFormatSymbol = Some []\<rparr>"

definition hasRole :: "(string \<times> bool) list \<Rightarrow> string \<Rightarrow> bool" where
  "hasRole colRoles name = (map_of colRoles name = Some True)"

definition scanColumn :: "DataViewMetadataColumn \<Rightarrow> int \<Rightarrow> ColumnScan \<Rightarrow> ColumnScan" where
  "scanColumn col i st =
     (case roles col of
        None \<Rightarrow> st
      | Some colRoles \<Rightarrow>
          (let st = (if hasRole colRoles ''axis'' then st\<lparr>axisCol := i\<rparr> else st);
               st = (if hasRole colRoles ''topvalues''
                     then st\<lparr>topValuesCol := i, scanTopChartName := displayName col,
                             topValueFormatSymbol := getFormatSymbol (format col)\<rparr>
                     else st);
               st = (if hasRole colRoles ''bottomvalues''
                     then st\<lparr>bottomValuesCol := i, scanBottomChartName := displayName col,
                             bottomValueFormatSymbol := getFormatSymbol (format col)\<rparr>
                     else st);
               st = (if hasRole colRoles ''warningstate''
                     then st\<lparr>warningStateCol := i\<rparr> else st);
               st = (if hasRole colRoles ''toppercentdate''
                     then st\<lparr>topPercentDateCol := i\<rparr> else st);
               st = (if hasRole colRoles ''bottompercentdate''
                     then st\<lparr>bottomPercentDateCol := i\<rparr> else st)
           in st))"

fun scanColumns :: "DataViewMetadataColumn list \<Rightarrow> int \<Rightarrow> ColumnScan \<Rightarrow> ColumnScan" where
  "scanColumns [] i st = st"
| "scanColumns (col # cols) i st = scanColumns cols (i + 1) (scanColumn col i st)"

text \<open>
  Reading the cell of a row at a column index: \<open>undefined\<close> (here \<open>NaN\<close>) at the index
  \<open>-1\<close> and beyond the end of the row.
\<close>

definition cell :: "number list \<Rightarrow> int \<Rightarrow> number" where
  "cell row c = (if 0 \<le> c \<and> nat c < length row then row ! nat c else NaN)"

text \<open>
  \<open>new Date(v)\<close> on a number: the time value is cut to an integer, and is invalid when
  the number is not finite or beyond the range of dates. \<open>new Date(p)\<close> on the value of a
  date property: \<open>null\<close> gives the time value 0, a text is parsed by the host.
\<close>

definition new_Date :: "number \<Rightarrow> Date" where
  "new_Date v =
     (case v of
        Num r \<Rightarrow>
          (if \<bar>r\<bar> \<le> 8640000000000000
           then Date (Num (of_int (if 0 \<le> r then \<lfloor>r\<rfloor> else \<lceil>r\<rceil>)))
           else Date NaN)
      | _ \<Rightarrow> Date NaN)"

definition new_Date_property :: "host \<Rightarrow> string option \<Rightarrow> Date" where
  "new_Date_property h p =
     (case p of None \<Rightarrow> Date (Num 0) | Some txt \<Rightarrow> new_Date (Date_parse h txt))"

text \<open>
  The loop over the rows, at row index \<open>i\<close>, with the two series built so far. The date
  is made once for each row and stored in both points.
\<close>

fun seriesLoop ::
    "host \<Rightarrow> ColumnScan \<Rightarrow> bool \<Rightarrow> bool \<Rightarrow> number list list \<Rightarrow> nat
     \<Rightarrow> IDualKpiDataPoint list \<times> IDualKpiDataPoint list
     \<Rightarrow> IDualKpiDataPoint list \<times> IDualKpiDataPoint list" where
  "seriesLoop h scan topAsPercent bottomAsPercent [] i acc = acc"
| "seriesLoop h scan topAsPercent bottomAsPercent (row # rest) i (tops, bottoms) =
     (let rowDate = (if - 1 < axisCol scan then new_Date (cell row (axisCol scan)) else clock h i);
          topValue = (if - 1 < topValuesCol scan then cell row (topValuesCol scan) else Num 0);
          bottomValue =
            (if - 1 < bottomValuesCol scan then cell row (bottomValuesCol scan) else Num 0);
          topValue = (if topAsPercent then topValue * Num 100 else topValue);
          bottomValue = (if bottomAsPercent then bottomValue * Num 100 else bottomValue)
      in seriesLoop h scan topAsPercent bottomAsPercent rest (Suc i)
           (tops @ [\<lparr>date = rowDate, val = topValue\<rparr>],
            bottoms @ [\<lparr>date = rowDate, val = bottomValue\<rparr>]))"

text \<open>
  The test that guards the read of the warning state. \<open>src/visual.ts\<close> tests the column
  index for truthiness, which holds for every index but 0 and so for \<open>-1\<close>; the other copy
  tests \<open>warningStateCol > -1\<close>.
\<close>

definition warningStateTest :: "source_file \<Rightarrow> int \<Rightarrow> bool" where
  "warningStateTest src c = (case src of visual_ts \<Rightarrow> c \<noteq> 0 | part_000 \<Rightarrow> - 1 < c)"

definition defaultWarningTooltipText :: "source_file \<Rightarrow> string" where
  "defaultWarningTooltipText src =
     (case src of visual_ts \<Rightarrow> ''Error'' | part_000 \<Rightarrow> ''Warning message'')"

definition percentSign :: "nat list" where
  "percentSign = [0x25]"

text \<open>The rows of the table; no rows when the data view has no table.\<close>

definition tableRows :: "DataView \<Rightarrow> number list list" where
  "tableRows dataView = (case table dataView of Some t \<Rightarrow> rows t | None \<Rightarrow> [])"

text \<open>
  The converter. It throws when the metadata or its columns are missing, and when the
  warning state is read from a table without rows.
\<close>

definition converter :: "source_file \<Rightarrow> host \<Rightarrow> DataView \<Rightarrow> error + IDualKpiData" where
  "converter src h dataView =
     (case metadata dataView of
        None \<Rightarrow> Inl TypeError
      | Some md \<Rightarrow>
     (case columns md of
        None \<Rightarrow> Inl TypeError
      | Some metadataColumns \<Rightarrow>
          (let objs = objects md;
               scan = scanColumns metadataColumns 0 initialScan;
               tableRows = tableRows dataView;
               topAsPercent = (topValueFormatSymbol scan = Some percentSign);
               bottomAsPercent = (bottomValueFormatSymbol scan = Some percentSign);
               series = seriesLoop h scan topAsPercent bottomAsPercent tableRows 0 ([], []);
               data =
                 \<lparr>topChartName = scanTopChartName scan,
                  bottomChartName = scanBottomChartName scan,
                  topValues = fst series,
                  bottomValues = snd series,
                  topValueAsPercent = topAsPercent,
                  bottomValueAsPercent = bottomAsPercent,
                  warningState = Num 0,
                  title = getValue objs dualKpiProperties p_titleText ''Title'',
                  abbreviateValues = getValue objs dualKpiProperties p_abbreviateValues False,
                  topChartToolTipText =
                    getValue objs dualKpiProperties p_topChartToolTipText [],
                  bottomChartToolTipText =
                    getValue objs dualKpiProperties p_bottomChartToolTipText [],
                  warningTooltipText =
                    getValue objs dualKpiProperties p_warningTooltipText
                      (defaultWarningTooltipText src),
                  showStaleDataWarning =
                    getValue objs dualKpiProperties p_showStaleDataWarning True,
                  staleDataTooltipText =
                    getValue objs dualKpiProperties p_staleDataTooltipText [],
                  staleDataThreshold =
                    getValue objs dualKpiProperties p_staleDataThreshold (Num 2),
                  topPercentCalcDate =
                    (if - 1 < topPercentDateCol scan \<and> tableRows \<noteq> []
                     then new_Date (cell (tableRows ! 0) (topPercentDateCol scan))
                     else new_Date_property h
                            (getValue objs dualKpiProperties p_topPercentCalcDate None)),
                  bottomPercentCalcDate =
                    (if - 1 < bottomPercentDateCol scan \<and> tableRows \<noteq> []
                     then new_Date (cell (tableRows ! 0) (bottomPercentDateCol scan))
                     else new_Date_property h
                            (getValue objs dualKpiProperties p_bottomPercentCalcDate None)),
                  dataColor = getValue objs dualKpiColors p_dataColor ''#01b8aa'',
                  textColor = getValue objs dualKpiColors p_textColor ''#212121'',
                  opacity = getValue objs dualKpiColors p_opacity (Num 30),
                  topChartAxisMin = getValue objs dualKpiAxis p_topChartAxisMin None,
                  topChartAxisMax = getValue objs dualKpiAxis p_topChartAxisMax None,
                  bottomChartAxisMin = getValue objs dualKpiAxis p_bottomChartAxisMin None,
                  bottomChartAxisMax = getValue objs dualKpiAxis p_bottomChartAxisMax None,
                  topChartZeroLine = getValue objs dualKpiAxis p_topChartZeroLine False,
                  bottomChartZeroLine = getValue objs dualKpiAxis p_bottomChartZeroLine False,
                  topChartType = getValue objs dualKpiChart p_topChartType ''area'',
                  bottomChartType = getValue objs dualKpiChart p_bottomChartType ''area''\<rparr>
           in if warningStateTest src (warningStateCol scan)
              then (if tableRows = [] then Inl TypeError
                    else Inr (data\<lparr>warningState :=
                                cell (last tableRows) (warningStateCol scan)\<rparr>))
              else Inr data)))"

section \<open>Drawing one chart\<close>

datatype DualKpiSize = extrasmall | small | medium | large

record IAxisConfig =
  cfg_min :: "number option"
  cfg_max :: "number option"

text \<open>
  The arguments of \<open>drawChart\<close>: the record \<open>IDualKpiOptions\<close> of the later copy; the
  earlier copy passes the same values as positional parameters. The fields \<open>top\<close>,
  \<open>width\<close> and \<open>height\<close> are written with the prefix \<open>o_\<close>.
\<close>

record IDualKpiOptions =
  abbreviateValue :: bool
  axisConfig :: IAxisConfig
  chartData :: "IDualKpiDataPoint list"
  chartTitle :: string
  chartType :: string
  o_height :: rat
  percentChangeStartPoint :: "IDualKpiDataPoint option"
  showZeroLine :: bool
  tooltipText :: string
  o_top :: rat
  valueAsPercent :: bool
  o_width :: rat

text \<open>
  What one call of \<open>drawChart\<close> draws: the place of the group, the domain and the ticks
  of the Y axis with their labels, the style of the series, the zero line, and the texts
  of the overlay. The shapes of the paths, the measured sizes of the texts and the
  listeners for the pointer are not modelled.
\<close>

record ChartView =
  marginLeft :: rat
  calcWidth :: rat
  calcHeight :: rat
  yDomain :: "number \<times> number"
  tickValues :: "number list"
  tickLabels :: "string list"
  seriesFill :: string
  seriesStroke :: string
  seriesStrokeWidth :: nat
  seriesOpacity :: number
  zeroLine :: bool
  dataTitle :: string
  dataValue :: string
  overlayTooltipText :: string

text \<open>
  \<open>d3.min\<close> and \<open>d3.max\<close> of the d3 library over the values of a series: they start from
  the first value that compares with itself (so not \<open>NaN\<close>) and take every later value
  that is smaller (greater). Without such a value the answer is \<open>undefined\<close>, here \<open>NaN\<close>.
\<close>

fun d3_min :: "number list \<Rightarrow> number" where
  "d3_min [] = NaN"
| "d3_min (b # bs) =
     (if b \<le> b then foldl (\<lambda>a b. if b < a then b else a) b bs else d3_min bs)"

fun d3_max :: "number list \<Rightarrow> number" where
  "d3_max [] = NaN"
| "d3_max (b # bs) =
     (if b \<le> b then foldl (\<lambda>a b. if a < b then b else a) b bs else d3_max bs)"

text \<open>\<open>x || 0\<close> on a number: 0 for the falsy numbers 0 and \<open>NaN\<close> (and for \<open>undefined\<close>).\<close>

definition or_zero :: "number \<Rightarrow> number" where
  "or_zero x = (if x = NaN \<or> x = Num 0 then Num 0 else x)"

text \<open>\<open>Math.round\<close>: the nearest integer, a half going up.\<close>

definition Math_round :: "number \<Rightarrow> number" where
  "Math_round x = (case x of Num r \<Rightarrow> Num (of_int \<lfloor>r + 1 / 2\<rfloor>) | _ \<Rightarrow> x)"

text \<open>\<open>chartData[chartData.length - 1]\<close>: \<open>undefined\<close> on the empty array.\<close>

definition array_last :: "'a list \<Rightarrow> 'a option" where
  "array_last xs = (if xs = [] then None else Some (last xs))"

text \<open>The formatters that the constructor and \<open>drawChart\<close> make from the d3 library.\<close>

definition valueFormatter :: "host \<Rightarrow> number \<Rightarrow> string" where
  "valueFormatter h = d3_format h ''.3s''"

definition commaNumberFormatter :: "host \<Rightarrow> number \<Rightarrow> string" where
  "commaNumberFormatter h = d3_format h '',''"

definition timeFormatter :: "host \<Rightarrow> Date \<Rightarrow> string" where
  "timeFormatter h = d3_time_format h ''%m/%d/%y''"

definition axisNumberFormatter :: "host \<Rightarrow> number \<Rightarrow> string" where
  "axisNumberFormatter h = d3_format h ''.2s''"

text \<open>The function given to \<open>tickFormat\<close>.\<close>

definition tickFormat :: "host \<Rightarrow> bool \<Rightarrow> number \<Rightarrow> string" where
  "tickFormat h asPercent d =
     (let axisTickLabel = axisNumberFormatter h d
      in if asPercent then axisTickLabel @ ''%'' else axisTickLabel)"

definition chartLeftMargin :: rat where
  "chartLeftMargin = 30"

text \<open>
  \<open>drawChart\<close>, with the size class and the data of the widget that it reads from
  \<open>this\<close>. It throws on an empty series, where the last point is \<open>undefined\<close>, and on
  a reference point that is \<open>undefined\<close>. The later copy takes 0 for a minimum or
  maximum that is falsy.
\<close>

definition drawChart ::
    "source_file \<Rightarrow> host \<Rightarrow> DualKpiSize \<Rightarrow> IDualKpiData \<Rightarrow> IDualKpiOptions
     \<Rightarrow> error + ChartView" where
  "drawChart src h sz data options =
     (case array_last (chartData options) of
        None \<Rightarrow> Inl TypeError
      | Some lastPoint \<Rightarrow>
          (let latestValue = val lastPoint;
               left = (if sz = medium \<or> sz = large then 40 else chartLeftMargin);
               cw = o_width options - 0 - left;
               ch = o_height options - 5 - 0;
               minValue = (case src of
                             visual_ts \<Rightarrow> d3_min (map val (chartData options))
                           | part_000 \<Rightarrow> or_zero (d3_min (map val (chartData options))));
               maxValue = (case src of
                             visual_ts \<Rightarrow> d3_max (map val (chartData options))
                           | part_000 \<Rightarrow> or_zero (d3_max (map val (chartData options))));
               axisMinValue =
                 (case cfg_min (axisConfig options) of Some m \<Rightarrow> m | None \<Rightarrow> minValue);
               axisMaxValue =
                 (case cfg_max (axisConfig options) of Some m \<Rightarrow> m | None \<Rightarrow> maxValue);
               ticks = [axisMinValue, axisMaxValue];
               area = (chartType options = ''area'')
           in case percentChangeStartPoint options of
                None \<Rightarrow> Inl TypeError
              | Some startPoint \<Rightarrow>
                  (let percentChange = getPercentChange (val startPoint) (val lastPoint);
                       formattedValue =
                         (if abbreviateValue options then valueFormatter h latestValue
                          else commaNumberFormatter h (Math_round latestValue));
                       formattedValue =
                         (if valueAsPercent options
                          then percentFormatter (latestValue / Num 100) False
                          else formattedValue);
                       percentChange =
                         (if valueAsPercent options
                          then percentFormatter ((val lastPoint - val startPoint) / Num 100) True
                          else percentChange);
                       percentChangeDesc =
                         percentChange @ '' change since '' @ timeFormatter h (date startPoint)
                   in Inr \<lparr>marginLeft = left,
                           calcWidth = cw,
                           calcHeight = ch,
                           yDomain = (axisMinValue, axisMaxValue),
                           tickValues = ticks,
                           tickLabels = map (tickFormat h (valueAsPercent options)) ticks,
                           seriesFill = (if area then dataColor data else ''none''),
                           seriesStroke = (if area then ''none'' else dataColor data),
                           seriesStrokeWidth = (if area then 0 else 2),
                           seriesOpacity = opacity data / Num 100,
                           zeroLine = showZeroLine options,
                           dataTitle = chartTitle options @ '' ('' @ percentChange @ '')'',
                           dataValue = formattedValue,
                           overlayTooltipText =
                             tooltipText options @ '' '' @ percentChangeDesc\<rparr>)))"

section \<open>The footer\<close>

text \<open>
  What one call of \<open>drawBottomContainer\<close> writes: the title, the text of the warning icon
  when it is shown, the message of the info icon when it is shown, and the text of the
  day range. \<open>None\<close> is an element that the call does not write.
\<close>

record FooterView =
  footerTitle :: string
  warningIcon :: "string option"
  infoIcon :: "string option"
  dayRangeText :: "string option"

definition getDaysBetween :: "Date \<Rightarrow> Date \<Rightarrow> number" where
  "getDaysBetween date1 date2 =
     (let oneDay = Num (24 * 60 * 60 * 1000);
          dayRange = Math_round (\<bar>getTime date1 - getTime date2\<bar> / oneDay)
      in dayRange)"

text \<open>
  The text of a whole number in a concatenation; the numbers written here come from
  \<open>Math.round\<close>.
\<close>

definition number_text :: "number \<Rightarrow> string" where
  "number_text x = toFixed 0 x"

text \<open>The info icon and the day range, which read the first and the last top value.\<close>

definition staleAndRange ::
    "host \<Rightarrow> IDualKpiData \<Rightarrow> error + (string option \<times> string option)" where
  "staleAndRange h data =
     (case array_last (topValues data) of
        None \<Rightarrow> Inl TypeError
      | Some lastPoint \<Rightarrow>
          (let dataDaysOld = getDaysBetween (date lastPoint) (today h);
               info =
                 (if staleDataThreshold data \<le> dataDaysOld \<and> showStaleDataWarning data
                  then Some (''Data is '' @ number_text dataDaysOld @ '' days old. ''
                             @ staleDataTooltipText data)
                  else None)
           in case array_get (topValues data) 0 of
                None \<Rightarrow> Inl TypeError
              | Some firstPoint \<Rightarrow>
                  (let dayRange = getDaysBetween (date firstPoint) (date lastPoint)
                   in Inr (info, Some (''last '' @ number_text dayRange @ '' days'')))))"

text \<open>
  \<open>drawBottomContainer\<close>. The earlier copy reads the top values without a test; the
  later copy does so only when there are top values.
\<close>

definition drawBottomContainer :: "source_file \<Rightarrow> host \<Rightarrow> IDualKpiData \<Rightarrow> error + FooterView" where
  "drawBottomContainer src h data =
     (let warning =
            (if warningState data < Num 0 then Some (warningTooltipText data) else None);
          guarded = (case src of visual_ts \<Rightarrow> True | part_000 \<Rightarrow> 0 < length (topValues data))
      in if guarded
         then (case staleAndRange h data of
                 Inl e \<Rightarrow> Inl e
               | Inr (info, dayRange) \<Rightarrow>
                   Inr \<lparr>footerTitle = title data, warningIcon = warning,
                        infoIcon = info, dayRangeText = dayRange\<rparr>)
         else Inr \<lparr>footerTitle = title data, warningIcon = warning,
                   infoIcon = None, dayRangeText = None\<rparr>)"

section \<open>The update of the widget\<close>

record IViewport =
  width :: rat
  height :: rat

record VisualUpdateOptions =
  dataViews :: "DataView list"
  viewport :: IViewport

text \<open>
  The fields of the widget that last from one update to the next, as far as the update
  assigns them.
\<close>

record Widget =
  w_dataView :: "DataView option"
  w_data :: "IDualKpiData option"
  w_size :: DualKpiSize
  sizeCssClass :: string
  w_viewport :: "IViewport option"

text \<open>
  What one call of \<open>update\<close> does to the picture: whether it removes what is there,
  the size it gives to the root when it sets one, the charts and the footer it draws, and
  the exception that ends it, if any.
\<close>

record Drawing =
  cleared :: bool
  svgSize :: "(rat \<times> rat) option"
  topChart :: "ChartView option"
  bottomChart :: "ChartView option"
  footer :: "FooterView option"
  thrown :: "error option"

text \<open>The clamped sizes and the constants of the four size classes.\<close>

definition availableHeight :: "IViewport \<Rightarrow> rat" where
  "availableHeight vp = (if height vp < 90 then 90 else height vp)"

definition availableWidth :: "IViewport \<Rightarrow> rat" where
  "availableWidth vp = (if width vp < 220 then 220 else width vp)"

record SizeLayout =
  l_size :: DualKpiSize
  l_sizeCssClass :: string
  iconOffset :: rat
  chartSpaceBetween :: rat
  chartTitleSpace :: rat

definition sizeLayout :: "rat \<Rightarrow> SizeLayout" where
  "sizeLayout h =
     (if 450 \<le> h then
        \<lparr>l_size = large, l_sizeCssClass = ''large'',
         iconOffset = - 1, chartSpaceBetween = 25, chartTitleSpace = 46\<rparr>
      else if 280 \<le> h then
        \<lparr>l_size = medium, l_sizeCssClass = ''medium'',
         iconOffset = - 8, chartSpaceBetween = 20, chartTitleSpace = 30\<rparr>
      else if 120 \<le> h then
        \<lparr>l_size = small, l_sizeCssClass = ''small'',
         iconOffset = - 6, chartSpaceBetween = 15, chartTitleSpace = 22\<rparr>
      else
        \<lparr>l_size = extrasmall, l_sizeCssClass = ''extra-small'',
         iconOffset = - 8, chartSpaceBetween = 6, chartTitleSpace = 18\<rparr>)"

text \<open>
  One call of \<open>drawChart\<close> from \<open>update\<close>: without a test in the earlier copy, only for
  a series that is not empty in the later copy.
\<close>

definition drawPanel ::
    "source_file \<Rightarrow> host \<Rightarrow> DualKpiSize \<Rightarrow> IDualKpiData \<Rightarrow> IDualKpiOptions
     \<Rightarrow> error + ChartView option" where
  "drawPanel src h sz data options =
     (if src = part_000 \<and> \<not> 0 < length (chartData options) then Inr None
      else (case drawChart src h sz data options of
              Inl e \<Rightarrow> Inl e
            | Inr view \<Rightarrow> Inr (Some view)))"

definition noDrawing :: Drawing where
  "noDrawing =
     \<lparr>cleared = False, svgSize = None, topChart = None, bottomChart = None,
      footer = None, thrown = None\<rparr>"

text \<open>
  The data view that \<open>update\<close> draws: the first one, when it has metadata with columns.
\<close>

definition boundDataView :: "VisualUpdateOptions \<Rightarrow> DataView option" where
  "boundDataView options =
     (case array_get (dataViews options) 0 of
        None \<Rightarrow> None
      | Some dataView \<Rightarrow>
          (case metadata dataView of
             None \<Rightarrow> None
           | Some md \<Rightarrow> (case columns md of None \<Rightarrow> None | Some cols \<Rightarrow> Some dataView)))"

text \<open>
  The arguments of the two calls of \<open>drawChart\<close>. The reference dates of the converted
  data are dates, never \<open>null\<close>.
\<close>

definition topChartOptions :: "IDualKpiData \<Rightarrow> rat \<Rightarrow> rat \<Rightarrow> IDualKpiOptions" where
  "topChartOptions data chartWidth chartHeight =
     \<lparr>abbreviateValue = abbreviateValues data,
      axisConfig = \<lparr>cfg_min = topChartAxisMin data, cfg_max = topChartAxisMax data\<rparr>,
      chartData = topValues data,
      chartTitle = topChartName data,
      chartType = topChartType data,
      o_height = chartHeight,
      percentChangeStartPoint =
        getPercentChangeStartPoint (topValues data) (Some (topPercentCalcDate data)),
      showZeroLine = topChartZeroLine data,
      tooltipText = topChartToolTipText data,
      o_top = 0,
      valueAsPercent = topValueAsPercent data,
      o_width = chartWidth\<rparr>"

definition bottomChartOptions ::
    "IDualKpiData \<Rightarrow> rat \<Rightarrow> rat \<Rightarrow> rat \<Rightarrow> IDualKpiOptions" where
  "bottomChartOptions data chartWidth chartHeight spaceBetween =
     \<lparr>abbreviateValue = abbreviateValues data,
      axisConfig = \<lparr>cfg_min = bottomChartAxisMin data, cfg_max = bottomChartAxisMax data\<rparr>,
      chartData = bottomValues data,
      chartTitle = bottomChartName data,
      chartType = bottomChartType data,
      o_height = chartHeight,
      percentChangeStartPoint =
        getPercentChangeStartPoint (bottomValues data) (Some (bottomPercentCalcDate data)),
      showZeroLine = bottomChartZeroLine data,
      tooltipText = bottomChartToolTipText data,
      o_top = chartHeight + spaceBetween,
      valueAsPercent = bottomValueAsPercent data,
      o_width = chartWidth\<rparr>"

text \<open>
  The three drawing steps of \<open>update\<close>, each ending the call when it throws: the top
  chart, the bottom chart, the footer.
\<close>

definition drawAll ::
    "source_file \<Rightarrow> host \<Rightarrow> DualKpiSize \<Rightarrow> IDualKpiData \<Rightarrow> IDualKpiOptions
     \<Rightarrow> IDualKpiOptions \<Rightarrow> Drawing \<Rightarrow> Drawing" where
  "drawAll src h sz data topOptions bottomOptions dr =
     (case drawPanel src h sz data topOptions of
        Inl e \<Rightarrow> dr\<lparr>thrown := Some e\<rparr>
      | Inr topView \<Rightarrow>
          (case drawPanel src h sz data bottomOptions of
             Inl e \<Rightarrow> dr\<lparr>topChart := topView, thrown := Some e\<rparr>
           | Inr bottomView \<Rightarrow>
               (case drawBottomContainer src h data of
                  Inl e \<Rightarrow>
                    dr\<lparr>topChart := topView, bottomChart := bottomView, thrown := Some e\<rparr>
                | Inr foot \<Rightarrow>
                    dr\<lparr>topChart := topView, bottomChart := bottomView,
                       footer := Some foot\<rparr>)))"

text \<open>
  \<open>update\<close>. The earlier copy removes the picture first and draws only for a data view
  with metadata and columns; the later copy removes the picture only without such a data
  view, and sets the size of the root only when the viewport has changed.
\<close>

definition update ::
    "source_file \<Rightarrow> host \<Rightarrow> VisualUpdateOptions \<Rightarrow> Widget \<Rightarrow> Widget \<times> Drawing" where
  "update src h options w =
     (let w = w\<lparr>w_dataView := array_get (dataViews options) 0\<rparr>;
          dr = noDrawing\<lparr>cleared := (src = visual_ts)\<rparr>
      in case boundDataView options of
           None \<Rightarrow> (w, dr\<lparr>cleared := True\<rparr>)
         | Some dataView \<Rightarrow>
             (case converter src h dataView of
                Inl e \<Rightarrow> (w, dr\<lparr>thrown := Some e\<rparr>)
              | Inr data \<Rightarrow>
                  (let ah = availableHeight (viewport options);
                       aw = availableWidth (viewport options);
                       chartWidth = aw;
                       lay = sizeLayout ah;
                       vp = \<lparr>width = aw, height = ah\<rparr>;
                       dr = dr\<lparr>svgSize :=
                               (if src = visual_ts \<or> w_viewport w \<noteq> Some vp
                                then Some (aw, ah) else None)\<rparr>;
                       w = w\<lparr>w_data := Some data, w_size := l_size lay,
                             sizeCssClass := l_sizeCssClass lay,
                             w_viewport := (if src = part_000 then Some vp else w_viewport w)\<rparr>;
                       chartHeight = (ah - (chartSpaceBetween lay + chartTitleSpace lay)) / 2
                   in (w, drawAll src h (w_size w) data
                            (topChartOptions data chartWidth chartHeight)
                            (bottomChartOptions data chartWidth chartHeight
                               (chartSpaceBetween lay))
                            dr))))"

section \<open>A host for worked examples\<close>

text \<open>
  The results below hold for every host. The worked examples need one host; its number
  formatter follows the d3 library (version 3) on finite numbers for the three specifiers
  that the widget uses. For the specifier \<open>.ps\<close> the library rounds the magnitude to \<open>p\<close>
  significant digits, picks the SI prefix of the rounded magnitude (a power of 1000
  between \<open>10 ^ -24\<close> and \<open>10 ^ 24\<close>), scales the magnitude by it, rounds again and writes
  the digits with \<open>toFixed\<close>. The logarithms of the library are taken exactly here.
\<close>

definition pow10 :: "int \<Rightarrow> rat" where
  "pow10 e = (if 0 \<le> e then 10 ^ nat e else 1 / 10 ^ nat (- e))"

text \<open>The floor and the ceiling of the decimal logarithm of a positive rational.\<close>

definition floor_log10_ge1 :: "rat \<Rightarrow> int" where
  "floor_log10_ge1 x = int (length (decimal (nat \<lfloor>x\<rfloor>))) - 1"

definition ceil_log10_ge1 :: "rat \<Rightarrow> int" where
  "ceil_log10_ge1 x =
     (if x = pow10 (floor_log10_ge1 x) then floor_log10_ge1 x else floor_log10_ge1 x + 1)"

definition floor_log10 :: "rat \<Rightarrow> int" where
  "floor_log10 x = (if 1 \<le> x then floor_log10_ge1 x else - ceil_log10_ge1 (1 / x))"

definition ceil_log10 :: "rat \<Rightarrow> int" where
  "ceil_log10 x = (if 1 \<le> x then ceil_log10_ge1 x else - floor_log10_ge1 (1 / x))"

definition d3_format_precision :: "rat \<Rightarrow> int \<Rightarrow> int" where
  "d3_format_precision x p = p - (if x \<noteq> 0 then ceil_log10 x else 1)"

definition d3_round :: "rat \<Rightarrow> int \<Rightarrow> rat" where
  "d3_round x n = of_int \<lfloor>x * pow10 n + 1 / 2\<rfloor> / pow10 n"

definition d3_formatPrefixes :: "string list" where
  "d3_formatPrefixes =
     [''y'', ''z'', ''a'', ''f'', ''p'', ''n'', [CHR 0xB5], ''m'', [],
      ''k'', ''M'', ''G'', ''T'', ''P'', ''E'', ''Z'', ''Y'']"

text \<open>The exponent of the SI prefix for a magnitude and a precision.\<close>

definition d3_formatPrefix :: "rat \<Rightarrow> int \<Rightarrow> int" where
  "d3_formatPrefix v p =
     (if v = 0 then 0
      else
        (let v = d3_round v (d3_format_precision v p);
             i = 1 + floor_log10 v
         in max (- 24) (min 24 ((i - 1) div 3 * 3))))"

definition d3_format_r :: "rat \<Rightarrow> int \<Rightarrow> string" where
  "d3_format_r x p =
     (let x = d3_round x (d3_format_precision x p)
      in toFixed (nat (max 0 (min 20 (d3_format_precision (x * (1 + 1 / 10 ^ 15)) p))))
           (Num x))"

definition d3_format_s :: "int \<Rightarrow> rat \<Rightarrow> string" where
  "d3_format_s p v =
     (let negative = (if v < 0 then ''-'' else []);
          a = \<bar>v\<bar>;
          e = d3_formatPrefix a p
      in negative @ d3_format_r (a / pow10 e) p @ d3_formatPrefixes ! nat (8 + e div 3))"

text \<open>The specifier \<open>,\<close> on a whole number: its digits in groups of three.\<close>

function group3 :: "string \<Rightarrow> string" where
  "group3 ds =
     (if length ds \<le> 3 then ds
      else group3 (take (length ds - 3) ds) @ '','' @ drop (length ds - 3) ds)"
  by pat_completeness auto
termination
  by (relation "measure length") auto

declare group3.simps [simp del]

definition d3_format_comma :: "rat \<Rightarrow> string" where
  "d3_format_comma v = (if v < 0 then ''-'' else []) @ group3 (decimal (nat \<lfloor>\<bar>v\<bar>\<rfloor>))"

text \<open>
  The host of the examples: no date text parses, the clock stands at one instant, dates
  are written by their time value, and numbers that are not finite by their name.
\<close>

definition sample_host :: host where
  "sample_host =
     \<lparr>Date_parse = (\<lambda>txt. NaN),
      clock = (\<lambda>i. Date (Num 864000000)),
      today = Date (Num 864000000),
      d3_format =
        (\<lambda>spec x. case x of
            Num v \<Rightarrow>
              (if spec = ''.2s'' then d3_format_s 2 v
               else if spec = ''.3s'' then d3_format_s 3 v
               else d3_format_comma v)
          | _ \<Rightarrow> toFixed 0 x),
      d3_time_format = (\<lambda>spec d. toFixed 0 (getTime d))\<rparr>"

text \<open>Data views, options and widgets of the examples.\<close>

definition sample_columns :: "DataViewMetadataColumn list" where
  "sample_columns =
     [\<lparr>displayName = ''State'', format = None, roles = Some [(''warningstate'', True)]\<rparr>,
      \<lparr>displayName = ''Day'', format = None, roles = Some [(''axis'', True)]\<rparr>,
      \<lparr>displayName = ''Sales'', format = Some [0x24, 0x23],
        roles = Some [(''topvalues'', True)]\<rparr>,
      \<lparr>displayName = ''Margin'', format = Some [0x30, 0x25],
        roles = Some [(''bottomvalues'', True)]\<rparr>]"

definition sample_dataView :: "number list list \<Rightarrow> DataView" where
  "sample_dataView rs =
     \<lparr>metadata = Some \<lparr>columns = Some sample_columns, objects = None\<rparr>,
      table = Some \<lparr>rows = rs\<rparr>\<rparr>"

definition sample_rows :: "number list list" where
  "sample_rows =
     [[Num (- 1), Num 0, Num 10, Num (1 / 5)],
      [Num (- 1), Num 86400000, Num 1234, Num (1 / 4)]]"

text \<open>A data view without a column for the warning state.\<close>

definition plain_dataView :: "number list list \<Rightarrow> DataView" where
  "plain_dataView rs =
     \<lparr>metadata = Some \<lparr>columns = Some (tl sample_columns), objects = None\<rparr>,
      table = Some \<lparr>rows = rs\<rparr>\<rparr>"

definition sample_options :: "DataView \<Rightarrow> rat \<Rightarrow> rat \<Rightarrow> VisualUpdateOptions" where
  "sample_options dv wd ht = \<lparr>dataViews = [dv], viewport = \<lparr>width = wd, height = ht\<rparr>\<rparr>"

definition new_widget :: Widget where
  "new_widget =
     \<lparr>w_dataView = None, w_data = None, w_size = small, sizeCssClass = ''small'',
      w_viewport = None\<rparr>"


definition sample_series :: "IDualKpiDataPoint list" where
  "sample_series =
     [\<lparr>date = Date (Num 0), val = Num 10\<rparr>,
      \<lparr>date = Date (Num 86400000), val = Num 20\<rparr>,
      \<lparr>date = Date (Num 172800000), val = Num 15\<rparr>]"

section \<open>Notions used in the statements and proofs\<close>



text \<open>A column carries a role when it has roles and the role is true among them.\<close>

definition columnHasRole :: "DataViewMetadataColumn \<Rightarrow> string \<Rightarrow> bool" where
  "columnHasRole col name =
     (case roles col of None \<Rightarrow> False | Some colRoles \<Rightarrow> hasRole colRoles name)"

section \<open>Facts about numbers and texts\<close>

lemma less_eq_Num [simp]: "(Num a \<le> Num b) = (a \<le> b)"
  by (auto simp: less_eq_number_def)

lemma minus_Num [simp]: "Num a - Num b = Num (a - b)"
  by (simp add: minus_number_def)

lemma strict_equals_Num [simp]: "strict_equals (Num a) (Num b) = (a = b)"
  by (simp add: strict_equals_def)

lemma strict_equals_NaN [simp]: "strict_equals NaN y = False" "strict_equals x NaN = False"
  by (auto simp: strict_equals_def)

lemma less_number_neq: "(x::number) < y \<Longrightarrow> \<not> strict_equals x y"
  by (cases x; cases y) (auto simp: strict_equals_def)

lemma less_number_not_NaN: "(x::number) < y \<Longrightarrow> x \<noteq> NaN \<and> y \<noteq> NaN"
  by (cases x; cases y) auto

lemma or_zero_Num [simp]: "or_zero (Num a) = Num a"
  by (simp add: or_zero_def)

lemma floor_rat_divide_numeral [simp]:
  "\<lfloor>numeral a / (numeral b :: rat)\<rfloor> = numeral a div numeral b"
  using floor_divide_of_int_eq [of "numeral a" "numeral b", where ?'a = rat] by simp






text \<open>
  The defining equations of the model and of the examples, for evaluating the model on
  the examples, and the texts of the example formatter on the numbers of the examples.
\<close>

lemmas model_defs =
  update_def boundDataView_def array_get_def array_last_def converter_def tableRows_def
  scanColumn_def initialScan_def hasRole_def warningStateTest_def defaultWarningTooltipText_def
  getFormatSymbol_def symbolPatterns_def percentSign_def cell_def new_Date_def
  new_Date_property_def getValue_def drawAll_def drawPanel_def drawChart_def
  drawBottomContainer_def staleAndRange_def getDaysBetween_def number_text_def Math_round_def
  topChartOptions_def bottomChartOptions_def sizeLayout_def availableHeight_def
  availableWidth_def noDrawing_def tickFormat_def axisNumberFormatter_def valueFormatter_def
  commaNumberFormatter_def timeFormatter_def chartLeftMargin_def or_zero_def
  getPercentChangeStartPoint_def closestIndexFrom.simps getPercentChange_def
  percentFormatter_def toFixed_def decimal.simps Let_def less_eq_number_def strict_equals_def

lemmas sample_defs =
  sample_host_def sample_columns_def sample_dataView_def sample_rows_def plain_dataView_def
  sample_options_def new_widget_def sample_series_def


section \<open>Percent change: the zero baseline, the unchanged value, sign and magnitude\<close>

text \<open>
  Claim C4. For every end value \<open>E\<close>, also one that is not finite,
  \<open>getPercentChange(0, E)\<close> is the text \<open>n/a\<close>: the start value is tested before
  anything is divided.
\<close>

theorem getPercentChange_zero_start: "getPercentChange (Num 0) E = ''n/a''"
  by (simp add: getPercentChange_def strict_equals_def)






section \<open>The reference point of the percent change\<close>

lemma closestIndexFrom_hit:
  assumes "sorted_wrt (\<lambda>a b. getTime (date a) < getTime (date b)) series"
    and "i < length series"
    and "getTime (date (series ! i)) \<noteq> NaN"
  shows "j \<le> i \<Longrightarrow> closestIndexFrom series (getTime (date (series ! i))) j c = i"
proof (induction "i - j" arbitrary: j c)
  case 0
  then have "j = i" by simp
  then show ?case
    using assms by (subst closestIndexFrom.simps) (simp add: strict_equals_def)
next
  case (Suc n)
  then have ji: "j < i" by simp
  then have lt: "getTime (date (series ! j)) < getTime (date (series ! i))"
    using assms(1,2) by (simp add: sorted_wrt_iff_nth_less)
  have "closestIndexFrom series (getTime (date (series ! i))) j c =
        closestIndexFrom series (getTime (date (series ! i))) (Suc j) j"
    using ji assms(2) lt less_number_neq [OF lt]
    by (subst closestIndexFrom.simps) simp
  also have "\<dots> = i"
    using Suc ji by simp
  finally show ?case .
qed

text \<open>
  Claim C8. For every series that is not empty and whose dates ascend strictly:
  \<open>getPercentChangeStartPoint(S, null)\<close> is the first point, and for every index \<open>i\<close> the
  reference point for the date of \<open>S[i]\<close> is \<open>S[i]\<close>.
\<close>

theorem getPercentChangeStartPoint_reference:
  assumes "series \<noteq> []"
    and "sorted_wrt (\<lambda>a b. getTime (date a) < getTime (date b)) series"
  shows "getPercentChangeStartPoint series None = Some (series ! 0)
    \<and> (\<forall>i < length series.
          getPercentChangeStartPoint series (Some (date (series ! i)))
            = Some (series ! i))"
proof -
  have first: "getPercentChangeStartPoint series None = Some (series ! 0)"
    using assms(1) by (simp add: getPercentChangeStartPoint_def array_get_def)
  have "getPercentChangeStartPoint series (Some (date (series ! i))) = Some (series ! i)"
    if i: "i < length series" for i
  proof (cases "getTime (date (series ! i)) = NaN")
    case False
    then have "closestIndexFrom series (getTime (date (series ! i))) 0 0 = i"
      using closestIndexFrom_hit [OF assms(2) i] by simp
    then show ?thesis
      using i by (simp add: getPercentChangeStartPoint_def array_get_def)
  next
    case True
    have "length series = 1"
    proof (rule ccontr)
      assume "length series \<noteq> 1"
      then obtain k where k: "k < length series" "k \<noteq> i"
        using i by (metis One_nat_def Suc_lessI less_Suc0 length_greater_0_conv assms(1) nat_neq_iff)
      then have "getTime (date (series ! i)) < getTime (date (series ! k))
               \<or> getTime (date (series ! k)) < getTime (date (series ! i))"
        using assms(2) i by (cases "i < k") (auto simp: sorted_wrt_iff_nth_less)
      then show False
        using True less_number_not_NaN by metis
    qed
    then have i0: "i = 0" using i by simp
    have "closestIndexFrom series NaN 0 0 = 0"
      using True i unfolding i0 by (subst closestIndexFrom.simps) (simp add: strict_equals_def)
    then show ?thesis
      using True i unfolding i0
      by (simp add: getPercentChangeStartPoint_def array_get_def)
  qed
  with first show ?thesis by blast
qed

theorem getPercentChangeStartPoint_reference_witness:
  "sample_series \<noteq> []
   \<and> sorted_wrt (\<lambda>a b. getTime (date a) < getTime (date b)) sample_series
   \<and> getPercentChangeStartPoint sample_series None = Some \<lparr>date = Date (Num 0), val = Num 10\<rparr>
   \<and> getPercentChangeStartPoint sample_series (Some (Date (Num 86400000)))
       = Some \<lparr>date = Date (Num 86400000), val = Num 20\<rparr>"
proof -
  have a: "sample_series \<noteq> []"
    by (simp add: sample_series_def)
  have b: "sorted_wrt (\<lambda>a b. getTime (date a) < getTime (date b)) sample_series"
    by (simp add: sample_series_def)
  note t = getPercentChangeStartPoint_reference [OF a b]
  have f: "getPercentChangeStartPoint sample_series None = Some (sample_series ! 0)"
    using t by blast
  have "1 < length sample_series"
    by (simp add: sample_series_def)
  then have g: "getPercentChangeStartPoint sample_series (Some (date (sample_series ! 1)))
          = Some (sample_series ! 1)"
    using t by blast
  have n: "sample_series ! 0 = \<lparr>date = Date (Num 0), val = Num 10\<rparr>"
    "sample_series ! 1 = \<lparr>date = Date (Num 86400000), val = Num 20\<rparr>"
    by (simp_all add: sample_series_def)
  show ?thesis
    using a b f g unfolding n by simp
qed

section \<open>The converter: the two series\<close>

lemma seriesLoop_length:
  "length (fst (seriesLoop h sc a b rs i (tops, bottoms))) = length tops + length rs
   \<and> length (snd (seriesLoop h sc a b rs i (tops, bottoms))) = length bottoms + length rs"
  by (induction rs arbitrary: i tops bottoms) (simp_all add: Let_def)

lemma seriesLoop_dates:
  "map date tops = map date bottoms \<Longrightarrow>
   map date (fst (seriesLoop h sc a b rs i (tops, bottoms)))
     = map date (snd (seriesLoop h sc a b rs i (tops, bottoms)))"
  by (induction rs arbitrary: i tops bottoms) (simp_all add: Let_def)


lemma converter_Inr_cases:
  assumes "converter src h dataView = Inr d"
  obtains md cols where "metadata dataView = Some md" and "columns md = Some cols"
  using assms unfolding converter_def by (auto split: option.splits)

lemma converter_Inr_series:
  assumes "converter src h dataView = Inr d"
    and "metadata dataView = Some md" and "columns md = Some cols"
    and "sc = scanColumns cols 0 initialScan"
  shows "topValues d =
           fst (seriesLoop h sc (topValueFormatSymbol sc = Some percentSign)
                  (bottomValueFormatSymbol sc = Some percentSign) (tableRows dataView) 0 ([], []))"
    and "bottomValues d =
           snd (seriesLoop h sc (topValueFormatSymbol sc = Some percentSign)
                  (bottomValueFormatSymbol sc = Some percentSign) (tableRows dataView) 0 ([], []))"
    and "topValueAsPercent d = (topValueFormatSymbol sc = Some percentSign)"
    and "bottomValueAsPercent d = (bottomValueFormatSymbol sc = Some percentSign)"
  using assms unfolding converter_def Let_def
  by (auto split: if_splits)

lemma sample_converter:
  "\<exists>d. converter visual_ts sample_host (sample_dataView sample_rows) = Inr d"
  by (simp add: model_defs sample_defs)


text \<open>
  Claim C9. Whenever the converter returns, the top and the bottom series have one point
  for each row of the table, and at every index the two points carry the same date.
\<close>

theorem converter_series_parallel:
  assumes "converter src h dataView = Inr d"
  shows "length (topValues d) = length (tableRows dataView)
       \<and> length (bottomValues d) = length (tableRows dataView)
       \<and> (\<forall>i < length (tableRows dataView).
            date (topValues d ! i) = date (bottomValues d ! i))"
proof -
  obtain md cols where mc: "metadata dataView = Some md" "columns md = Some cols"
    using assms by (rule converter_Inr_cases)
  define sc where "sc = scanColumns cols 0 initialScan"
  note s = converter_Inr_series(1,2) [OF assms mc sc_def]
  have len: "length (topValues d) = length (tableRows dataView)"
    "length (bottomValues d) = length (tableRows dataView)"
    using seriesLoop_length [of h sc _ _ "tableRows dataView" 0 "[]" "[]"] s by simp_all
  have "map date (topValues d) = map date (bottomValues d)"
    using seriesLoop_dates [of "[]" "[]" h sc _ _ "tableRows dataView" 0] s by simp
  then have "date (topValues d ! i) = date (bottomValues d ! i)"
    if "i < length (tableRows dataView)" for i
    using that len by (metis nth_map)
  with len show ?thesis by blast
qed

theorem converter_series_parallel_witness:
  "\<exists>d. converter visual_ts sample_host (sample_dataView sample_rows) = Inr d
     \<and> length (tableRows (sample_dataView sample_rows)) = 2
     \<and> length (topValues d) = 2 \<and> length (bottomValues d) = 2
     \<and> date (topValues d ! 0) = date (bottomValues d ! 0)
     \<and> date (topValues d ! 1) = date (bottomValues d ! 1)"
proof -
  obtain d where c: "converter visual_ts sample_host (sample_dataView sample_rows) = Inr d"
    using sample_converter by blast
  have l: "length (tableRows (sample_dataView sample_rows)) = 2"
    by (simp add: tableRows_def sample_dataView_def sample_rows_def)
  note t = converter_series_parallel [OF c]
  have "date (topValues d ! 0) = date (bottomValues d ! 0)"
    "date (topValues d ! 1) = date (bottomValues d ! 1)"
    using t l by simp_all
  then show ?thesis
    using c l t by auto
qed

section \<open>The converter: the warning state\<close>

lemma converter_warningState:
  assumes "converter src h dataView = Inr d"
    and "metadata dataView = Some md" and "columns md = Some cols"
    and "sc = scanColumns cols 0 initialScan"
  shows "warningState d =
           (if warningStateTest src (warningStateCol sc)
            then cell (last (tableRows dataView)) (warningStateCol sc) else Num 0)"
  using assms unfolding converter_def Let_def
  by (auto split: if_splits)

lemma scanColumn_warningStateCol:
  "warningStateCol (scanColumn col i st) =
     (if columnHasRole col ''warningstate'' then i else warningStateCol st)"
  by (simp add: scanColumn_def columnHasRole_def Let_def split: option.splits)

lemma scanColumns_append:
  "scanColumns (xs @ ys) i st = scanColumns ys (i + int (length xs)) (scanColumns xs i st)"
  by (induction xs arbitrary: i st) (simp_all add: algebra_simps)

lemma scanColumns_no_warning_role:
  "\<forall>col \<in> set cols. \<not> columnHasRole col ''warningstate'' \<Longrightarrow>
   warningStateCol (scanColumns cols i st) = warningStateCol st"
  by (induction cols arbitrary: i st) (simp_all add: scanColumn_warningStateCol)

lemma scanColumns_last_warning_role:
  assumes "cols = before @ col # after"
    and "columnHasRole col ''warningstate''"
    and "\<forall>c \<in> set after. \<not> columnHasRole c ''warningstate''"
  shows "warningStateCol (scanColumns cols i st) = i + int (length before)"
  using assms
  by (simp add: scanColumns_append scanColumns_no_warning_role scanColumn_warningStateCol)

text \<open>
  The later copy does what claim C1 says on every table with a row: the warning state is
  the cell of the last row in the last column that carries the role, and 0 without such
  a column. On a table without rows it throws when a column carries the role.
\<close>

lemma converter_part_000_warningState:
  assumes "converter part_000 h dataView = Inr d"
    and "metadata dataView = Some md" and "columns md = Some cols"
  shows "\<forall>col \<in> set cols. \<not> columnHasRole col ''warningstate'' \<Longrightarrow> warningState d = Num 0"
    and "cols = before @ col # after \<Longrightarrow> columnHasRole col ''warningstate'' \<Longrightarrow>
         \<forall>c \<in> set after. \<not> columnHasRole c ''warningstate'' \<Longrightarrow>
         warningState d = cell (last (tableRows dataView)) (int (length before))"
proof -
  define sc where "sc = scanColumns cols 0 initialScan"
  note w = converter_warningState [OF assms sc_def]
  show "warningState d = Num 0" if "\<forall>col \<in> set cols. \<not> columnHasRole col ''warningstate''"
    using w scanColumns_no_warning_role [OF that, of 0 initialScan]
    by (simp add: sc_def warningStateTest_def initialScan_def)
  show "warningState d = cell (last (tableRows dataView)) (int (length before))"
    if "cols = before @ col # after" "columnHasRole col ''warningstate''"
      "\<forall>c \<in> set after. \<not> columnHasRole c ''warningstate''"
    using w scanColumns_last_warning_role [OF that, of 0 initialScan]
    by (simp add: sc_def warningStateTest_def)
qed

text \<open>
  The earlier copy tests the column index for truthiness. With the role on the first
  column only, the index is 0 and the warning state stays 0; without the role the index
  is \<open>-1\<close> and the warning state is read from the last row at the index \<open>-1\<close>, which is
  \<open>undefined\<close>.
\<close>

lemma converter_visual_ts_warningState:
  assumes "converter visual_ts h dataView = Inr d"
    and "metadata dataView = Some md" and "columns md = Some cols"
  shows "\<forall>col \<in> set cols. \<not> columnHasRole col ''warningstate'' \<Longrightarrow> warningState d = NaN"
    and "cols = col # after \<Longrightarrow> columnHasRole col ''warningstate'' \<Longrightarrow>
         \<forall>c \<in> set after. \<not> columnHasRole c ''warningstate'' \<Longrightarrow> warningState d = Num 0"
proof -
  define sc where "sc = scanColumns cols 0 initialScan"
  note w = converter_warningState [OF assms sc_def]
  show "warningState d = NaN" if "\<forall>col \<in> set cols. \<not> columnHasRole col ''warningstate''"
    using w scanColumns_no_warning_role [OF that, of 0 initialScan]
    by (simp add: sc_def warningStateTest_def initialScan_def cell_def)
  show "warningState d = Num 0"
    if "cols = col # after" "columnHasRole col ''warningstate''"
      "\<forall>c \<in> set after. \<not> columnHasRole c ''warningstate''"
    using w scanColumns_last_warning_role [of cols "[]" col after 0 initialScan] that
    by (simp add: sc_def warningStateTest_def)
qed

text \<open>
  Claim C1, on the earlier copy \<open>src/visual.ts\<close>. The first data view has the role of the
  warning state on column 0 and the value \<open>-1\<close> there in its last row: the converter
  answers the warning state 0, where the later copy answers \<open>-1\<close>. The second data view
  has no column with the role: the converter answers \<open>undefined\<close> (here \<open>NaN\<close>), where
  the later copy answers 0.
\<close>

theorem converter_visual_ts_warningState_defect:
  "columnHasRole (sample_columns ! 0) ''warningstate''
   \<and> cell (last sample_rows) 0 = Num (- 1)
   \<and> map_sum id warningState
       (converter visual_ts sample_host (sample_dataView sample_rows)) = Inr (Num 0)
   \<and> map_sum id warningState
       (converter part_000 sample_host (sample_dataView sample_rows)) = Inr (Num (- 1))
   \<and> filter (\<lambda>col. columnHasRole col ''warningstate'') (tl sample_columns) = []
   \<and> map_sum id warningState
       (converter visual_ts sample_host (plain_dataView (map tl sample_rows))) = Inr NaN
   \<and> map_sum id warningState
       (converter part_000 sample_host (plain_dataView (map tl sample_rows))) = Inr (Num 0)"
  by (simp add: model_defs sample_defs columnHasRole_def)

section \<open>The size class\<close>




section \<open>The ticks of the Y axis\<close>












section \<open>Values as percentages\<close>











section \<open>The empty series\<close>

lemma converter_no_rows:
  assumes "converter src h dataView = Inr d" and "tableRows dataView = []"
  shows "topValues d = []" and "bottomValues d = []"
proof -
  obtain md cols where mc: "metadata dataView = Some md" "columns md = Some cols"
    using assms(1) by (rule converter_Inr_cases)
  show "topValues d = []" and "bottomValues d = []"
    using converter_Inr_series(1,2) [OF assms(1) mc refl] assms(2) by simp_all
qed

text \<open>
  The earlier copy has no test for an empty series: on a table without rows every update
  throws. Either the converter throws, reading the warning state from a last row that
  does not exist, or \<open>drawChart\<close> throws, reading the value of a last point that does
  not exist.
\<close>

lemma update_visual_ts_no_rows:
  assumes "boundDataView options = Some dv" and "tableRows dv = []"
  shows "thrown (snd (update visual_ts h options w)) = Some TypeError"
proof (cases "converter visual_ts h dv")
  case (Inl e)
  then show ?thesis
    using assms(1) by (cases e) (simp add: update_def Let_def noDrawing_def)
next
  case (Inr d)
  have "topValues d = []"
    using converter_no_rows(1) [OF Inr assms(2)] .
  then have "drawPanel visual_ts h sz d (topChartOptions d cw ch) = Inl TypeError" for sz cw ch
    by (simp add: drawPanel_def drawChart_def array_last_def topChartOptions_def)
  then show ?thesis
    using assms(1) Inr by (simp add: update_def Let_def drawAll_def)
qed

text \<open>
  The later copy tests both series and the footer: on a table without rows, when its
  converter returns, the update draws no chart and ends without an exception. Its
  converter still throws on such a table when a column carries the role of the warning
  state.
\<close>

lemma update_part_000_no_rows:
  assumes "boundDataView options = Some dv" and "tableRows dv = []"
    and "converter part_000 h dv = Inr d"
  shows "thrown (snd (update part_000 h options w)) = None"
    and "topChart (snd (update part_000 h options w)) = None"
    and "bottomChart (snd (update part_000 h options w)) = None"
    and "\<exists>f. footer (snd (update part_000 h options w)) = Some f
           \<and> infoIcon f = None \<and> dayRangeText f = None"
proof -
  have e: "topValues d = []" "bottomValues d = []"
    using converter_no_rows [OF assms(3,2)] by simp_all
  have p: "drawPanel part_000 h sz d (topChartOptions d cw ch) = Inr None"
    "drawPanel part_000 h sz d (bottomChartOptions d cw ch sb) = Inr None" for sz cw ch sb
    using e by (simp_all add: drawPanel_def topChartOptions_def bottomChartOptions_def)
  have f: "drawBottomContainer part_000 h d =
      Inr \<lparr>footerTitle = title d,
           warningIcon = (if warningState d < Num 0 then Some (warningTooltipText d) else None),
           infoIcon = None, dayRangeText = None\<rparr>"
    using e by (simp add: drawBottomContainer_def Let_def)
  show "thrown (snd (update part_000 h options w)) = None"
    and "topChart (snd (update part_000 h options w)) = None"
    and "bottomChart (snd (update part_000 h options w)) = None"
    and "\<exists>f. footer (snd (update part_000 h options w)) = Some f
           \<and> infoIcon f = None \<and> dayRangeText f = None"
    using assms(1,3) by (simp_all add: update_def Let_def drawAll_def p f noDrawing_def)
qed

lemma converter_part_000_no_rows_throws:
  assumes "metadata dataView = Some md" and "columns md = Some cols"
    and "tableRows dataView = []"
    and "- 1 < warningStateCol (scanColumns cols 0 initialScan)"
  shows "converter part_000 h dataView = Inl TypeError"
  using assms by (simp add: converter_def Let_def warningStateTest_def)

text \<open>
  Claim C2, on the earlier copy \<open>src/visual.ts\<close>. On a data view with columns and a table
  without rows the update throws: in the converter when no column carries the role of
  the warning state, and in \<open>drawChart\<close>, after the converter has returned, when the
  first column carries it. The later copy ends the first of these updates without an
  exception and without a chart.
\<close>

theorem update_visual_ts_empty_series_throws:
  "tableRows (plain_dataView []) = []
   \<and> thrown (snd (update visual_ts sample_host (sample_options (plain_dataView []) 300 500)
        new_widget)) = Some TypeError
   \<and> w_data (fst (update visual_ts sample_host (sample_options (plain_dataView []) 300 500)
        new_widget)) = None
   \<and> thrown (snd (update visual_ts sample_host (sample_options (sample_dataView []) 300 500)
        new_widget)) = Some TypeError
   \<and> map_option topValues
        (w_data (fst (update visual_ts sample_host (sample_options (sample_dataView []) 300 500)
           new_widget))) = Some []
   \<and> thrown (snd (update part_000 sample_host (sample_options (plain_dataView []) 300 500)
        new_widget)) = None
   \<and> topChart (snd (update part_000 sample_host (sample_options (plain_dataView []) 300 500)
        new_widget)) = None
   \<and> bottomChart (snd (update part_000 sample_host (sample_options (plain_dataView []) 300 500)
        new_widget)) = None"
  by (simp add: model_defs sample_defs)

end
